theory Spec2Isabelle
  imports Complex_Main
begin

section \<open>Python values\<close>

text \<open>
  The class \<open>Basic\<close> of \<open>base_configs/basic.py\<close> reads its run parameters from an untyped
  dictionary \<open>cfg\<close>, so the values it stores are Python objects. The model has the objects
  a configuration carries: \<open>None\<close>, booleans, integers, floats, strings and lists.

  A float is modelled by the rational number that its decimal notation denotes
  (\<open>1e-4\<close> is \<open>1 / 10 ^ 4\<close>, \<open>0.33\<close> is \<open>33 / 100\<close>): the binary rounding of IEEE doubles,
  infinities and NaN are outside the model. A string is a list of characters, one per
  code point, so that \<open>length\<close> is Python's \<open>len\<close>.
\<close>

datatype pyval =
    PNone
  | PBool bool
  | PInt int
  | PFloat rat
  | PStr string
  | PList "pyval list"

datatype error = ZeroDivisionError | TypeError

text \<open>\<open>not x\<close>: the truth value test of Python, negated.\<close>

fun py_not :: "pyval \<Rightarrow> bool" where
  "py_not PNone = True"
| "py_not (PBool b) = (\<not> b)"
| "py_not (PInt i) = (i = 0)"
| "py_not (PFloat r) = (r = 0)"
| "py_not (PStr s) = (s = [])"
| "py_not (PList xs) = (xs = [])"

text \<open>\<open>len(x)\<close>: defined on strings and lists, a \<open>TypeError\<close> on every other object.\<close>

fun py_len :: "pyval \<Rightarrow> error + nat" where
  "py_len (PStr s) = Inr (length s)"
| "py_len (PList xs) = Inr (length xs)"
| "py_len _ = Inl TypeError"

text \<open>\<open>a / b\<close> on integers: true division, which raises on a zero divisor.\<close>

definition py_truediv :: "int \<Rightarrow> int \<Rightarrow> error + rat" where
  "py_truediv a b = (if b = 0 then Inl ZeroDivisionError else Inr (of_int a / of_int b))"

text \<open>
  \<open>np.rint\<close>: the nearest integer, a tie going to the even neighbour.
\<close>

definition rint :: "rat \<Rightarrow> int" where
  "rint x =
     (let f = \<lfloor>x\<rfloor>; d = x - of_int f
      in if d < 1 / 2 then f
         else if 1 / 2 < d then f + 1
         else if even f then f else f + 1)"

text \<open>
  \<open>np.round(x, decimals)\<close> for \<open>decimals \<ge> 0\<close>: scale by \<open>10 ^ decimals\<close>, round to the
  nearest integer, scale back.
\<close>

definition np_round :: "rat \<Rightarrow> nat \<Rightarrow> rat" where
  "np_round x decimals = of_int (rint (x * 10 ^ decimals)) / 10 ^ decimals"

text \<open>\<open>d.get(key)\<close>: the value stored under the key, \<open>None\<close> when the key is missing.\<close>

definition dict_get :: "(string \<rightharpoonup> pyval) \<Rightarrow> string \<Rightarrow> pyval" where
  "dict_get d k = (case d k of None \<Rightarrow> PNone | Some v \<Rightarrow> v)"

subsection \<open>Formatting\<close>

text \<open>
  An f-string field \<open>{x}\<close> is \<open>str(x)\<close>: a string is itself, an integer is its decimal
  notation with a minus sign when negative, and \<open>None\<close> is the text \<open>None\<close>.
\<close>

definition digit_char :: "nat \<Rightarrow> char" where
  "digit_char d = ''0123456789'' ! d"

fun str_nat :: "nat \<Rightarrow> string" where
  "str_nat n = (if n < 10 then [digit_char n] else str_nat (n div 10) @ [digit_char (n mod 10)])"

declare str_nat.simps [simp del]

definition str_int :: "int \<Rightarrow> string" where
  "str_int i = (if i < 0 then CHR ''-'' # str_nat (nat (- i)) else str_nat (nat i))"

definition format_str :: "string option \<Rightarrow> string" where
  "format_str x = (case x of None \<Rightarrow> ''None'' | Some s \<Rightarrow> s)"

definition format_int :: "int option \<Rightarrow> string" where
  "format_int x = (case x of None \<Rightarrow> ''None'' | Some i \<Rightarrow> str_int i)"

section \<open>The class \<open>Basic\<close>\<close>

text \<open>
  The attributes that \<open>__init__\<close> assigns. The constructor's arguments carry their
  annotations (\<open>name: str = None\<close>, \<open>version: int = None\<close>, \<open>size: int = None\<close>,
  \<open>measure: str = "B"\<close>), the values read from \<open>cfg\<close> are untyped. The attributes \<open>size\<close>
  and \<open>measure\<close> are \<open>size_attr\<close> and \<open>measure_attr\<close> here.
\<close>

record basic =
  name :: "string option"
  version :: "int option"
  size_attr :: "int option"
  measure_attr :: "string option"
  cfg :: "string \<rightharpoonup> pyval"
  num_nodes :: pyval
  num_gpus :: pyval
  max_steps :: pyval
  seq_length :: pyval
  global_batch_size :: pyval
  tokenizer_path :: pyval
  data_paths :: pyval
  weights :: pyval

type_synonym pydict = "(string \<times> pyval) list"

text \<open>\<open>Config(OptimizerConfig, ...)\<close>: the configured class and its keyword arguments.\<close>

datatype config = Config (target: string) (kwargs: pydict)

text \<open>
  \<open>_get_data_weights\<close>: \<open>None\<close> when \<open>data_paths\<close> is falsy, otherwise
  \<open>len(data_paths)\<close> copies of \<open>np.round(1 / len(data_paths), 2)\<close>.
\<close>

definition get_data_weights :: "'a basic_scheme \<Rightarrow> error + pyval" where
  "get_data_weights self =
     (if py_not (data_paths self) then Inr PNone
      else case py_len (data_paths self) of
        Inl e \<Rightarrow> Inl e
      | Inr datafiles_num \<Rightarrow>
          (case py_truediv 1 (int datafiles_num) of
             Inl e \<Rightarrow> Inl e
           | Inr q \<Rightarrow>
               (let weight = np_round q 2
                in Inr (PList (replicate datafiles_num (PFloat weight))))))"

text \<open>
  \<open>__init__\<close>: the attributes are assigned in the source's order, \<open>weights\<close> last, from
  \<open>_get_data_weights\<close> on the object built so far (which does not read \<open>weights\<close>; the
  attribute does not exist yet and is \<open>PNone\<close> in the record until then). An exception of
  \<open>_get_data_weights\<close> leaves the constructor.
\<close>

definition init ::
  "string option \<Rightarrow> int option \<Rightarrow> int option \<Rightarrow> string option \<Rightarrow> (string \<rightharpoonup> pyval)
     \<Rightarrow> error + basic" where
  "init name0 version0 size0 measure0 cfg0 =
     (let self = \<lparr> name = name0, version = version0, size_attr = size0,
                   measure_attr = measure0, cfg = cfg0,
                   num_nodes = dict_get cfg0 ''num_nodes'',
                   num_gpus = dict_get cfg0 ''gpu_count'',
                   max_steps = dict_get cfg0 ''max_steps_per_run'',
                   seq_length = dict_get cfg0 ''seq_length'',
                   global_batch_size = dict_get cfg0 ''global_batch_size'',
                   tokenizer_path = dict_get cfg0 ''tokenizer_path'',
                   data_paths = dict_get cfg0 ''data_paths'',
                   weights = PNone \<rparr>
      in case get_data_weights self of
           Inl e \<Rightarrow> Inl e
         | Inr w \<Rightarrow> Inr (self\<lparr>weights := w\<rparr>))"

text \<open>\<open>model_config\<close> and \<open>tokenizer_config\<close>: the body is the expression \<open>None\<close>, and the
  call returns \<open>None\<close>.\<close>

definition model_config :: "basic \<Rightarrow> pyval" where
  "model_config self = PNone"

definition tokenizer_config :: "basic \<Rightarrow> pyval" where
  "tokenizer_config self = PNone"

definition get_optim_config :: "basic \<Rightarrow> config" where
  "get_optim_config self =
     Config ''OptimizerConfig''
       [(''optimizer'', PStr ''adam''),
        (''lr'', PFloat (1 / 10 ^ 4)),
        (''min_lr'', PFloat (1 / 10 ^ 5)),
        (''use_distributed_optimizer'', PBool True),
        (''bf16'', PBool True),
        (''adam_beta1'', PFloat (9 / 10)),
        (''adam_beta2'', PFloat (95 / 100)),
        (''overlap_grad_reduce'', PBool False),
        (''overlap_param_gather'', PBool True)]"

definition get_trainer_config :: "basic \<Rightarrow> pydict" where
  "get_trainer_config self =
     [(''accelerator'', PStr ''gpu''),
      (''precision'', PStr ''bf16''),
      (''logger'', PBool False),
      (''enable_checkpointing'', PBool False),
      (''use_distributed_sampler'', PBool False),
      (''max_epochs'', PNone),
      (''log_every_n_steps'', PInt 1),
      (''limit_val_batches'', PInt 1),
      (''limit_test_batches'', PInt 1),
      (''accumulate_grad_batches'', PInt 1),
      (''gradient_clip_val'', PFloat 1),
      (''num_nodes'', num_nodes self),
      (''devices'', num_gpus self),
      (''max_steps'', max_steps self),
      (''val_check_interval'', max_steps self)]"

definition get_data_config :: "basic \<Rightarrow> pydict" where
  "get_data_config self =
     [(''paths'', data_paths self),
      (''weights'', weights self),
      (''seq_length'', seq_length self),
      (''global_batch_size'', global_batch_size self),
      (''num_workers'', PInt 2),
      (''split'', PStr ''99990,8,2''),
      (''index_mapping_dir'', PNone)]"

definition get_run_config :: "basic \<Rightarrow> pydict" where
  "get_run_config self =
     [(''name'', PStr (format_str (name self) @ ''_'' @ format_int (size_attr self)
                        @ format_str (measure_attr self))),
      (''results_dir'', PNone),
      (''time_limit'', PStr ''0-00:30:00'')]"

subsection \<open>Method calls on the object\<close>

text \<open>
  A call of a public method returns a value and leaves the object in some state. No method
  of the class assigns an attribute, so each call hands back the object it was given.
\<close>

datatype operation =
    ModelConfig | TokenizerConfig | GetOptimConfig
  | GetTrainerConfig | GetDataConfig | GetRunConfig

datatype retval = RVal pyval | RConfig config | RDict pydict

fun call :: "operation \<Rightarrow> basic \<Rightarrow> retval \<times> basic" where
  "call ModelConfig self = (RVal (model_config self), self)"
| "call TokenizerConfig self = (RVal (tokenizer_config self), self)"
| "call GetOptimConfig self = (RConfig (get_optim_config self), self)"
| "call GetTrainerConfig self = (RDict (get_trainer_config self), self)"
| "call GetDataConfig self = (RDict (get_data_config self), self)"
| "call GetRunConfig self = (RDict (get_run_config self), self)"

text \<open>The object after a sequence of calls, made one after the other.\<close>

fun calls :: "operation list \<Rightarrow> basic \<Rightarrow> basic" where
  "calls [] self = self"
| "calls (m # ms) self = calls ms (snd (call m self))"

subsection \<open>Configurations used as examples\<close>

text \<open>The default of the constructor's \<open>cfg\<close> argument, the empty dictionary.\<close>

definition cfg_default :: "string \<rightharpoonup> pyval" where
  "cfg_default = Map.empty"

text \<open>A configuration whose \<open>data_paths\<close> is present and empty.\<close>

definition cfg_empty_paths :: "string \<rightharpoonup> pyval" where
  "cfg_empty_paths = [''data_paths'' \<mapsto> PList []]"

text \<open>A configuration whose \<open>data_paths\<close> is a number, which has no length.\<close>

definition cfg_int_paths :: "string \<rightharpoonup> pyval" where
  "cfg_int_paths = [''data_paths'' \<mapsto> PInt 5]"

text \<open>A configuration with cluster sizes and no \<open>data_paths\<close> key.\<close>

definition cfg_no_paths :: "string \<rightharpoonup> pyval" where
  "cfg_no_paths = [''num_nodes'' \<mapsto> PInt 2, ''gpu_count'' \<mapsto> PInt 8]"

text \<open>A full configuration over three data files.\<close>

definition cfg_three_paths :: "string \<rightharpoonup> pyval" where
  "cfg_three_paths =
     [''num_nodes'' \<mapsto> PInt 2, ''gpu_count'' \<mapsto> PInt 8, ''max_steps_per_run'' \<mapsto> PInt 100,
      ''seq_length'' \<mapsto> PInt 2048, ''global_batch_size'' \<mapsto> PInt 128,
      ''data_paths'' \<mapsto> PList [PStr ''a'', PStr ''b'', PStr ''c'']]"

text \<open>
  The object that the constructor builds from \<open>cfg_three_paths\<close> for the model
  \<open>gpt3\<close> of size \<open>5\<close> with measure \<open>B\<close>.
\<close>

definition obj_three_paths :: basic where
  "obj_three_paths =
     \<lparr> name = Some ''gpt3'', version = None, size_attr = Some 5,
       measure_attr = Some ''B'', cfg = cfg_three_paths, num_nodes = PInt 2,
       num_gpus = PInt 8, max_steps = PInt 100, seq_length = PInt 2048,
       global_batch_size = PInt 128, tokenizer_path = PNone,
       data_paths = PList [PStr ''a'', PStr ''b'', PStr ''c''],
       weights = PList [PFloat (33 / 100), PFloat (33 / 100), PFloat (33 / 100)] \<rparr>"

section \<open>Rounding\<close>

lemma rint_error: "\<bar>of_int (rint x) - x\<bar> \<le> 1 / 2"
proof -
  have "of_int \<lfloor>x\<rfloor> \<le> x" and "x < of_int \<lfloor>x\<rfloor> + 1"
    by linarith+
  then show ?thesis
    by (auto simp: rint_def Let_def)
qed

lemma np_round_error: "\<bar>np_round x d - x\<bar> \<le> 1 / (2 * 10 ^ d)"
proof -
  have "\<bar>np_round x d - x\<bar> = \<bar>of_int (rint (x * 10 ^ d)) - x * 10 ^ d\<bar> / 10 ^ d"
    by (simp add: np_round_def field_simps abs_divide flip: abs_mult)
  also have "\<dots> \<le> (1 / 2) / 10 ^ d"
    by (intro divide_right_mono rint_error) simp
  finally show ?thesis by simp
qed

lemma np_round_third: "np_round (1 / 3) 2 = 33 / 100"
  by code_simp

lemma np_round_tie_to_even: "np_round (1 / 8) 2 = 12 / 100"
  by code_simp

section \<open>The data weights\<close>

lemma get_data_weights_falsy:
  "py_not (data_paths self) \<Longrightarrow> get_data_weights self = Inr PNone"
  by (simp add: get_data_weights_def)

lemma get_data_weights_list:
  "data_paths self = PList ps \<Longrightarrow> ps \<noteq> [] \<Longrightarrow>
   get_data_weights self =
     Inr (PList (replicate (length ps) (PFloat (np_round (1 / of_nat (length ps)) 2))))"
  by (simp add: get_data_weights_def py_truediv_def)

lemma get_data_weights_str:
  "data_paths self = PStr t \<Longrightarrow> t \<noteq> [] \<Longrightarrow>
   get_data_weights self =
     Inr (PList (replicate (length t) (PFloat (np_round (1 / of_nat (length t)) 2))))"
  by (simp add: get_data_weights_def py_truediv_def)

text \<open>The division is never reached with a zero divisor: the only exception is the
  \<open>TypeError\<close> of \<open>len\<close> on a truthy object that has no length.\<close>

lemma get_data_weights_Inl_iff:
  "get_data_weights self = Inl e \<longleftrightarrow>
     e = TypeError \<and> \<not> py_not (data_paths self) \<and> py_len (data_paths self) = Inl TypeError"
  by (cases "data_paths self") (auto simp: get_data_weights_def py_truediv_def Let_def)

section \<open>Construction\<close>

lemma init_Inl_iff:
  "init n v s m cfg0 = Inl e \<longleftrightarrow>
     e = TypeError \<and> \<not> py_not (dict_get cfg0 ''data_paths'')
       \<and> py_len (dict_get cfg0 ''data_paths'') = Inl TypeError"
proof -
  define self where
    "self = \<lparr> name = n, version = v, size_attr = s, measure_attr = m, cfg = cfg0,
              num_nodes = dict_get cfg0 ''num_nodes'',
              num_gpus = dict_get cfg0 ''gpu_count'',
              max_steps = dict_get cfg0 ''max_steps_per_run'',
              seq_length = dict_get cfg0 ''seq_length'',
              global_batch_size = dict_get cfg0 ''global_batch_size'',
              tokenizer_path = dict_get cfg0 ''tokenizer_path'',
              data_paths = dict_get cfg0 ''data_paths'',
              weights = PNone \<rparr>"
  have dp: "data_paths self = dict_get cfg0 ''data_paths''"
    by (simp add: self_def)
  have "init n v s m cfg0 = Inl e \<longleftrightarrow> get_data_weights self = Inl e"
    unfolding init_def Let_def self_def [symmetric]
    by (cases "get_data_weights self") simp_all
  then show ?thesis
    by (simp add: get_data_weights_Inl_iff dp)
qed

lemma init_Inr_iff:
  "init n v s m cfg0 = Inr self \<longleftrightarrow>
     (\<exists>w. get_data_weights self = Inr w \<and>
        self = \<lparr> name = n, version = v, size_attr = s, measure_attr = m, cfg = cfg0,
                 num_nodes = dict_get cfg0 ''num_nodes'',
                 num_gpus = dict_get cfg0 ''gpu_count'',
                 max_steps = dict_get cfg0 ''max_steps_per_run'',
                 seq_length = dict_get cfg0 ''seq_length'',
                 global_batch_size = dict_get cfg0 ''global_batch_size'',
                 tokenizer_path = dict_get cfg0 ''tokenizer_path'',
                 data_paths = dict_get cfg0 ''data_paths'',
                 weights = w \<rparr>)"
  by (auto simp: init_def Let_def get_data_weights_def split: sum.splits)

lemma init_succeeds:
  assumes "py_not (dict_get cfg0 ''data_paths'') \<or> py_len (dict_get cfg0 ''data_paths'') \<noteq> Inl TypeError"
  obtains self where "init n v s m cfg0 = Inr self"
  using assms init_Inl_iff [of n v s m cfg0] by (cases "init n v s m cfg0") auto

lemma init_attributes:
  assumes "init n v s m cfg0 = Inr self"
  shows "name self = n" and "version self = v" and "size_attr self = s"
    and "measure_attr self = m" and "cfg self = cfg0"
    and "num_nodes self = dict_get cfg0 ''num_nodes''"
    and "num_gpus self = dict_get cfg0 ''gpu_count''"
    and "max_steps self = dict_get cfg0 ''max_steps_per_run''"
    and "seq_length self = dict_get cfg0 ''seq_length''"
    and "global_batch_size self = dict_get cfg0 ''global_batch_size''"
    and "tokenizer_path self = dict_get cfg0 ''tokenizer_path''"
    and "data_paths self = dict_get cfg0 ''data_paths''"
    and "get_data_weights self = Inr (weights self)"
  using assms by (auto simp: init_Inr_iff)

lemma init_three_paths:
  "init (Some ''gpt3'') None (Some 5) (Some ''B'') cfg_three_paths = Inr obj_three_paths"
  by (simp add: init_def dict_get_def cfg_three_paths_def get_data_weights_def
      py_truediv_def np_round_third obj_three_paths_def Let_def)

section \<open>Formatting and method calls\<close>

lemma str_int_5: "str_int 5 = ''5''"
  by (simp add: str_int_def str_nat.simps digit_char_def)

lemma str_int_many_digits: "str_int 1203 = ''1203''"
  by code_simp

lemma str_int_negative: "str_int (- 40) = ''-40''"
  by code_simp

lemma call_unchanged: "snd (call m self) = self"
  by (cases m) simp_all

lemma calls_unchanged: "calls ms self = self"
  by (induction ms) (simp_all add: call_unchanged)

section \<open>Claims on the data weights\<close>

text \<open>
  Claim C10. When \<open>data_paths\<close> is present and is the empty sequence, the falsiness guard
  of \<open>_get_data_weights\<close> answers \<open>None\<close> and nothing is raised: the constructor returns
  an object, and its data configuration has the empty sequence under \<open>paths\<close> and
  \<open>None\<close> under \<open>weights\<close>.
\<close>

theorem empty_data_paths_gives_no_weights:
  assumes "cfg0 ''data_paths'' = Some (PList [])"
  shows "\<exists>self. init n v s m cfg0 = Inr self
           \<and> get_data_weights self = Inr PNone
           \<and> map_of (get_data_config self) ''paths'' = Some (PList [])
           \<and> map_of (get_data_config self) ''weights'' = Some PNone"
proof -
  have dp: "dict_get cfg0 ''data_paths'' = PList []"
    using assms by (simp add: dict_get_def)
  then obtain self where self: "init n v s m cfg0 = Inr self"
    by (auto intro: init_succeeds [of cfg0 n v s m])
  then have "data_paths self = PList []" and "get_data_weights self = Inr (weights self)"
    using dp by (simp_all add: init_attributes)
  moreover from this have "weights self = PNone"
    by (simp add: get_data_weights_falsy)
  ultimately show ?thesis
    using self by (simp add: get_data_config_def)
qed

theorem empty_data_paths_gives_no_weights_witness:
  "cfg_empty_paths ''data_paths'' = Some (PList [])
   \<and> init (Some ''gpt3'') (Some 3) (Some 5) (Some ''B'') cfg_empty_paths =
       Inr \<lparr> name = Some ''gpt3'', version = Some 3, size_attr = Some 5,
             measure_attr = Some ''B'', cfg = cfg_empty_paths, num_nodes = PNone,
             num_gpus = PNone, max_steps = PNone, seq_length = PNone,
             global_batch_size = PNone, tokenizer_path = PNone,
             data_paths = PList [], weights = PNone \<rparr>"
  using empty_data_paths_gives_no_weights [of cfg_empty_paths "Some ''gpt3''" "Some 3" "Some 5" "Some ''B''"]
  by (simp add: cfg_empty_paths_def init_def dict_get_def get_data_weights_def)

text \<open>
  Claim C3. When the key \<open>data_paths\<close> is absent from \<open>cfg\<close>, the constructor returns an
  object on which \<open>_get_data_weights\<close> answers \<open>None\<close>, and whose data configuration has
  \<open>None\<close> under both \<open>paths\<close> and \<open>weights\<close>.
\<close>

theorem absent_data_paths_gives_no_weights:
  assumes "cfg0 ''data_paths'' = None"
  shows "\<exists>self. init n v s m cfg0 = Inr self
           \<and> get_data_weights self = Inr PNone
           \<and> map_of (get_data_config self) ''paths'' = Some PNone
           \<and> map_of (get_data_config self) ''weights'' = Some PNone"
proof -
  have dp: "dict_get cfg0 ''data_paths'' = PNone"
    using assms by (simp add: dict_get_def)
  then obtain self where self: "init n v s m cfg0 = Inr self"
    by (auto intro: init_succeeds [of cfg0 n v s m])
  then have "data_paths self = PNone" and "get_data_weights self = Inr (weights self)"
    using dp by (simp_all add: init_attributes)
  moreover from this have "weights self = PNone"
    by (simp add: get_data_weights_falsy)
  ultimately show ?thesis
    using self by (simp add: get_data_config_def)
qed

theorem absent_data_paths_gives_no_weights_witness:
  "cfg_no_paths ''data_paths'' = None
   \<and> init None None None (Some ''B'') cfg_no_paths =
       Inr \<lparr> name = None, version = None, size_attr = None,
             measure_attr = Some ''B'', cfg = cfg_no_paths, num_nodes = PInt 2,
             num_gpus = PInt 8, max_steps = PNone, seq_length = PNone,
             global_batch_size = PNone, tokenizer_path = PNone,
             data_paths = PNone, weights = PNone \<rparr>"
  using absent_data_paths_gives_no_weights [of cfg_no_paths None None None "Some ''B''"]
  by (simp add: cfg_no_paths_def init_def dict_get_def get_data_weights_def)

text \<open>
  Claim C2. When \<open>data_paths\<close> is a list of \<open>n\<close> paths, the constructor returns an object
  whose \<open>weights\<close> are what \<open>_get_data_weights\<close> answers; for \<open>n \<ge> 1\<close> they are \<open>n\<close>
  copies of \<open>np.round(1 / n, 2)\<close>, and whenever \<open>weights\<close> is a sequence it is as long as
  \<open>data_paths\<close> and each of its elements is that rounded share.
\<close>

theorem data_weights_equal_split:
  assumes "cfg0 ''data_paths'' = Some (PList ps)"
  shows "\<exists>self. init n v s m cfg0 = Inr self
           \<and> data_paths self = PList ps
           \<and> get_data_weights self = Inr (weights self)
           \<and> (ps \<noteq> [] \<longrightarrow>
                weights self =
                  PList (replicate (length ps) (PFloat (np_round (1 / of_nat (length ps)) 2))))
           \<and> (\<forall>ws. weights self = PList ws \<longrightarrow>
                length ws = length ps
                \<and> (\<forall>w \<in> set ws. w = PFloat (np_round (1 / of_nat (length ps)) 2)))"
proof -
  have dp: "dict_get cfg0 ''data_paths'' = PList ps"
    using assms by (simp add: dict_get_def)
  then obtain self where self: "init n v s m cfg0 = Inr self"
    by (auto intro: init_succeeds [of cfg0 n v s m])
  then have paths: "data_paths self = PList ps"
    and w: "get_data_weights self = Inr (weights self)"
    using dp by (simp_all add: init_attributes)
  have "weights self = PNone" if "ps = []"
    using that paths w by (simp add: get_data_weights_falsy)
  moreover have "weights self =
      PList (replicate (length ps) (PFloat (np_round (1 / of_nat (length ps)) 2)))" if "ps \<noteq> []"
    using that paths w get_data_weights_list [of self ps] by simp
  ultimately have "\<forall>ws. weights self = PList ws \<longrightarrow>
      length ws = length ps
      \<and> (\<forall>w \<in> set ws. w = PFloat (np_round (1 / of_nat (length ps)) 2))"
    by (cases "ps = []") auto
  with self paths w \<open>ps \<noteq> [] \<Longrightarrow> weights self = _\<close> show ?thesis
    by blast
qed

theorem data_weights_equal_split_witness:
  "cfg_three_paths ''data_paths'' = Some (PList [PStr ''a'', PStr ''b'', PStr ''c''])
   \<and> init (Some ''gpt3'') None (Some 5) (Some ''B'') cfg_three_paths =
       Inr \<lparr> name = Some ''gpt3'', version = None, size_attr = Some 5,
             measure_attr = Some ''B'', cfg = cfg_three_paths, num_nodes = PInt 2,
             num_gpus = PInt 8, max_steps = PInt 100, seq_length = PInt 2048,
             global_batch_size = PInt 128, tokenizer_path = PNone,
             data_paths = PList [PStr ''a'', PStr ''b'', PStr ''c''],
             weights = PList [PFloat (33 / 100), PFloat (33 / 100), PFloat (33 / 100)] \<rparr>"
proof -
  have dp: "cfg_three_paths ''data_paths'' = Some (PList [PStr ''a'', PStr ''b'', PStr ''c''])"
    by (simp add: cfg_three_paths_def)
  from data_weights_equal_split
         [of cfg_three_paths "[PStr ''a'', PStr ''b'', PStr ''c'']"
             "Some ''gpt3''" None "Some 5" "Some ''B''", OF dp]
  obtain self where a: "init (Some ''gpt3'') None (Some 5) (Some ''B'') cfg_three_paths = Inr self"
    and b: "weights self = PList (replicate (length [PStr ''a'', PStr ''b'', PStr ''c''])
              (PFloat (np_round (1 / of_nat (length [PStr ''a'', PStr ''b'', PStr ''c''])) 2)))"
    by blast
  from b have w: "weights self = PList [PFloat (33 / 100), PFloat (33 / 100), PFloat (33 / 100)]"
    by (simp add: np_round_third)
  have d: "dict_get cfg_three_paths ''num_nodes'' = PInt 2"
    "dict_get cfg_three_paths ''gpu_count'' = PInt 8"
    "dict_get cfg_three_paths ''max_steps_per_run'' = PInt 100"
    "dict_get cfg_three_paths ''seq_length'' = PInt 2048"
    "dict_get cfg_three_paths ''global_batch_size'' = PInt 128"
    "dict_get cfg_three_paths ''tokenizer_path'' = PNone"
    "dict_get cfg_three_paths ''data_paths'' = PList [PStr ''a'', PStr ''b'', PStr ''c'']"
    by (simp_all add: dict_get_def cfg_three_paths_def)
  from a obtain w' where "self = \<lparr> name = Some ''gpt3'', version = None, size_attr = Some 5,
             measure_attr = Some ''B'', cfg = cfg_three_paths, num_nodes = PInt 2,
             num_gpus = PInt 8, max_steps = PInt 100, seq_length = PInt 2048,
             global_batch_size = PInt 128, tokenizer_path = PNone,
             data_paths = PList [PStr ''a'', PStr ''b'', PStr ''c''],
             weights = w' \<rparr>"
    unfolding init_Inr_iff d by blast
  with w a dp show ?thesis
    by simp
qed

text \<open>
  Claim C1, as amended. The claim has a present and empty \<open>data_paths\<close> raise a division
  error; the guard \<open>if not self.data_paths\<close> answers \<open>None\<close> for it instead, so the
  division never sees a zero divisor. First the claim's case evaluated: the constructor
  returns an object.
\<close>

theorem empty_data_paths_counterexample:
  "init None None None (Some ''B'') cfg_empty_paths \<noteq> Inl ZeroDivisionError
   \<and> init None None None (Some ''B'') cfg_empty_paths =
       Inr \<lparr> name = None, version = None, size_attr = None,
             measure_attr = Some ''B'', cfg = cfg_empty_paths, num_nodes = PNone,
             num_gpus = PNone, max_steps = PNone, seq_length = PNone,
             global_batch_size = PNone, tokenizer_path = PNone,
             data_paths = PList [], weights = PNone \<rparr>"
  by (simp add: cfg_empty_paths_def init_def dict_get_def get_data_weights_def)

text \<open>
  What holds instead: no construction raises a division error; with a present and empty
  \<open>data_paths\<close> the constructor returns an object whose \<open>weights\<close> are \<open>None\<close>; it
  returns an object whenever \<open>data_paths\<close> is absent, \<open>None\<close>, a list or a string; and
  when it does raise, the exception is the \<open>TypeError\<close> of \<open>len\<close> on a truthy
  \<open>data_paths\<close> that has no length.
\<close>

theorem construction_failure_modes:
  "init n v s m cfg0 \<noteq> Inl ZeroDivisionError
   \<and> (cfg0 ''data_paths'' = Some (PList []) \<longrightarrow>
        (\<exists>self. init n v s m cfg0 = Inr self \<and> weights self = PNone))
   \<and> (cfg0 ''data_paths'' = None \<or> cfg0 ''data_paths'' = Some PNone
        \<or> (\<exists>ps. cfg0 ''data_paths'' = Some (PList ps))
        \<or> (\<exists>t. cfg0 ''data_paths'' = Some (PStr t)) \<longrightarrow>
        (\<exists>self. init n v s m cfg0 = Inr self))
   \<and> (init n v s m cfg0 = Inl e \<longrightarrow>
        e = TypeError \<and> \<not> py_not (dict_get cfg0 ''data_paths'')
        \<and> py_len (dict_get cfg0 ''data_paths'') = Inl TypeError)"
proof (intro conjI impI)
  show "init n v s m cfg0 \<noteq> Inl ZeroDivisionError"
    by (simp add: init_Inl_iff)
next
  assume "cfg0 ''data_paths'' = Some (PList [])"
  then have dp: "dict_get cfg0 ''data_paths'' = PList []"
    by (simp add: dict_get_def)
  then obtain self where self: "init n v s m cfg0 = Inr self"
    by (auto intro: init_succeeds [of cfg0 n v s m])
  then have "data_paths self = PList []" and "get_data_weights self = Inr (weights self)"
    using dp by (simp_all add: init_attributes)
  then have "weights self = PNone"
    by (simp add: get_data_weights_falsy)
  with self show "\<exists>self. init n v s m cfg0 = Inr self \<and> weights self = PNone"
    by blast
next
  assume "cfg0 ''data_paths'' = None \<or> cfg0 ''data_paths'' = Some PNone
        \<or> (\<exists>ps. cfg0 ''data_paths'' = Some (PList ps))
        \<or> (\<exists>t. cfg0 ''data_paths'' = Some (PStr t))"
  then have "py_not (dict_get cfg0 ''data_paths'')
      \<or> py_len (dict_get cfg0 ''data_paths'') \<noteq> Inl TypeError"
    by (auto simp: dict_get_def)
  then show "\<exists>self. init n v s m cfg0 = Inr self"
    by (auto intro: init_succeeds [of cfg0 n v s m])
next
  assume "init n v s m cfg0 = Inl e"
  then show "e = TypeError" and "\<not> py_not (dict_get cfg0 ''data_paths'')"
    and "py_len (dict_get cfg0 ''data_paths'') = Inl TypeError"
    by (simp_all add: init_Inl_iff)
qed

theorem construction_failure_modes_witness:
  "cfg_empty_paths ''data_paths'' = Some (PList [])
   \<and> init None None None None cfg_empty_paths =
       Inr \<lparr> name = None, version = None, size_attr = None,
             measure_attr = None, cfg = cfg_empty_paths, num_nodes = PNone,
             num_gpus = PNone, max_steps = PNone, seq_length = PNone,
             global_batch_size = PNone, tokenizer_path = PNone,
             data_paths = PList [], weights = PNone \<rparr>
   \<and> init None None None None cfg_int_paths = Inl TypeError
   \<and> \<not> py_not (dict_get cfg_int_paths ''data_paths'')
   \<and> py_len (dict_get cfg_int_paths ''data_paths'') = Inl TypeError"
proof -
  have dp: "cfg_empty_paths ''data_paths'' = Some (PList [])"
    by (simp add: cfg_empty_paths_def)
  have d: "dict_get cfg_empty_paths ''num_nodes'' = PNone"
    "dict_get cfg_empty_paths ''gpu_count'' = PNone"
    "dict_get cfg_empty_paths ''max_steps_per_run'' = PNone"
    "dict_get cfg_empty_paths ''seq_length'' = PNone"
    "dict_get cfg_empty_paths ''global_batch_size'' = PNone"
    "dict_get cfg_empty_paths ''tokenizer_path'' = PNone"
    "dict_get cfg_empty_paths ''data_paths'' = PList []"
    by (simp_all add: dict_get_def cfg_empty_paths_def)
  note fm = construction_failure_modes [of None None None None]
  from fm [of cfg_empty_paths] dp
  obtain self where a: "init None None None None cfg_empty_paths = Inr self"
    and w: "weights self = PNone"
    by blast
  from a obtain w' where "self = \<lparr> name = None, version = None, size_attr = None,
             measure_attr = None, cfg = cfg_empty_paths, num_nodes = PNone,
             num_gpus = PNone, max_steps = PNone, seq_length = PNone,
             global_batch_size = PNone, tokenizer_path = PNone,
             data_paths = PList [], weights = w' \<rparr>"
    unfolding init_Inr_iff d by blast
  with a w have 1: "init None None None None cfg_empty_paths =
       Inr \<lparr> name = None, version = None, size_attr = None,
             measure_attr = None, cfg = cfg_empty_paths, num_nodes = PNone,
             num_gpus = PNone, max_steps = PNone, seq_length = PNone,
             global_batch_size = PNone, tokenizer_path = PNone,
             data_paths = PList [], weights = PNone \<rparr>"
    by simp
  have 2: "init None None None None cfg_int_paths = Inl TypeError"
    by (simp add: init_def dict_get_def cfg_int_paths_def get_data_weights_def)
  from fm [of cfg_int_paths TypeError] 2
  have "\<not> py_not (dict_get cfg_int_paths ''data_paths'')"
    and "py_len (dict_get cfg_int_paths ''data_paths'') = Inl TypeError"
    by blast+
  with dp 1 2 show ?thesis
    by blast
qed

section \<open>Claims on construction\<close>

text \<open>
  Claim C8. A recognised key that is missing from \<open>cfg\<close> never makes the constructor
  raise and leaves \<open>None\<close> in its attribute: without \<open>data_paths\<close> the constructor
  returns an object; in every object it returns, the attribute of each missing key is
  \<open>None\<close> (and so are the \<open>weights\<close> when \<open>data_paths\<close> is missing); and whether it
  raises is decided by the value under \<open>data_paths\<close> alone, whatever the other keys and
  arguments are.
\<close>

theorem missing_keys_resolve_to_none:
  "(cfg0 ''data_paths'' = None \<longrightarrow> (\<exists>self. init n v s m cfg0 = Inr self))
   \<and> (init n v s m cfg0 = Inr self' \<longrightarrow>
        (cfg0 ''num_nodes'' = None \<longrightarrow> num_nodes self' = PNone)
      \<and> (cfg0 ''gpu_count'' = None \<longrightarrow> num_gpus self' = PNone)
      \<and> (cfg0 ''max_steps_per_run'' = None \<longrightarrow> max_steps self' = PNone)
      \<and> (cfg0 ''seq_length'' = None \<longrightarrow> seq_length self' = PNone)
      \<and> (cfg0 ''global_batch_size'' = None \<longrightarrow> global_batch_size self' = PNone)
      \<and> (cfg0 ''tokenizer_path'' = None \<longrightarrow> tokenizer_path self' = PNone)
      \<and> (cfg0 ''data_paths'' = None \<longrightarrow> data_paths self' = PNone \<and> weights self' = PNone))
   \<and> (cfg0 ''data_paths'' = cfg1 ''data_paths'' \<longrightarrow>
        isl (init n v s m cfg0) = isl (init n' v' s' m' cfg1))"
proof (intro conjI impI)
  assume "cfg0 ''data_paths'' = None"
  then have "py_not (dict_get cfg0 ''data_paths'')"
    by (simp add: dict_get_def)
  then show "\<exists>self. init n v s m cfg0 = Inr self"
    by (auto intro: init_succeeds [of cfg0 n v s m])
next
  assume a: "init n v s m cfg0 = Inr self'"
  note attrs = init_attributes [OF a]
  show "num_nodes self' = PNone" if "cfg0 ''num_nodes'' = None"
    using that by (simp add: attrs dict_get_def)
  show "num_gpus self' = PNone" if "cfg0 ''gpu_count'' = None"
    using that by (simp add: attrs dict_get_def)
  show "max_steps self' = PNone" if "cfg0 ''max_steps_per_run'' = None"
    using that by (simp add: attrs dict_get_def)
  show "seq_length self' = PNone" if "cfg0 ''seq_length'' = None"
    using that by (simp add: attrs dict_get_def)
  show "global_batch_size self' = PNone" if "cfg0 ''global_batch_size'' = None"
    using that by (simp add: attrs dict_get_def)
  show "tokenizer_path self' = PNone" if "cfg0 ''tokenizer_path'' = None"
    using that by (simp add: attrs dict_get_def)
  show "data_paths self' = PNone" if "cfg0 ''data_paths'' = None"
    using that by (simp add: attrs dict_get_def)
  show "weights self' = PNone" if "cfg0 ''data_paths'' = None"
  proof -
    have "py_not (data_paths self')"
      using that by (simp add: attrs dict_get_def)
    then show ?thesis
      using attrs(13) by (simp add: get_data_weights_falsy)
  qed
next
  assume "cfg0 ''data_paths'' = cfg1 ''data_paths''"
  then have "dict_get cfg0 ''data_paths'' = dict_get cfg1 ''data_paths''"
    by (simp add: dict_get_def)
  then have "(\<exists>e. init n v s m cfg0 = Inl e) \<longleftrightarrow> (\<exists>e. init n' v' s' m' cfg1 = Inl e)"
    by (simp add: init_Inl_iff)
  then show "isl (init n v s m cfg0) = isl (init n' v' s' m' cfg1)"
    by (simp add: isl_def)
qed

theorem missing_keys_resolve_to_none_witness:
  "cfg_default ''data_paths'' = None
   \<and> init None None None (Some ''B'') cfg_default =
       Inr \<lparr> name = None, version = None, size_attr = None,
             measure_attr = Some ''B'', cfg = cfg_default, num_nodes = PNone,
             num_gpus = PNone, max_steps = PNone, seq_length = PNone,
             global_batch_size = PNone, tokenizer_path = PNone,
             data_paths = PNone, weights = PNone \<rparr>
   \<and> \<not> isl (init (Some ''gpt3'') None (Some 5) (Some ''B'') cfg_no_paths)"
proof -
  have k: "cfg_default k = None" for k
    by (simp add: cfg_default_def)
  note mk = missing_keys_resolve_to_none [of cfg_default None None None "Some ''B''"]
  from mk [THEN conjunct1, rule_format, OF k]
  obtain self where a: "init None None None (Some ''B'') cfg_default = Inr self" ..
  note b = mk [of self, THEN conjunct2, THEN conjunct1, rule_format, OF a]
  have "num_nodes self = PNone" "num_gpus self = PNone"
    "max_steps self = PNone" "seq_length self = PNone" "global_batch_size self = PNone"
    "tokenizer_path self = PNone" "data_paths self = PNone" "weights self = PNone"
    using b k by simp_all
  moreover have "name self = None" "version self = None" "size_attr self = None"
    "measure_attr self = Some ''B''" "cfg self = cfg_default"
    by (simp_all add: init_attributes [OF a])
  ultimately have c: "self = \<lparr> name = None, version = None, size_attr = None,
             measure_attr = Some ''B'', cfg = cfg_default, num_nodes = PNone,
             num_gpus = PNone, max_steps = PNone, seq_length = PNone,
             global_batch_size = PNone, tokenizer_path = PNone,
             data_paths = PNone, weights = PNone \<rparr>"
    by (cases self) simp
  have d: "cfg_default ''data_paths'' = cfg_no_paths ''data_paths''"
    by (simp add: cfg_default_def cfg_no_paths_def)
  from mk [of self cfg_no_paths "Some ''gpt3''" None "Some 5" "Some ''B''",
           THEN conjunct2, THEN conjunct2, rule_format, OF d]
  have e: "\<not> isl (init (Some ''gpt3'') None (Some 5) (Some ''B'') cfg_no_paths)"
    by (simp add: a)
  from a c have "init None None None (Some ''B'') cfg_default =
       Inr \<lparr> name = None, version = None, size_attr = None,
             measure_attr = Some ''B'', cfg = cfg_default, num_nodes = PNone,
             num_gpus = PNone, max_steps = PNone, seq_length = PNone,
             global_batch_size = PNone, tokenizer_path = PNone,
             data_paths = PNone, weights = PNone \<rparr>"
    by simp
  with k e show ?thesis
    by blast
qed

section \<open>Claims on the configurations\<close>

text \<open>
  Claim C4. For an object whose \<open>name\<close>, \<open>size\<close> and \<open>measure\<close> are not \<open>None\<close>, the
  run configuration has the text \<open>{name}_{size}{measure}\<close> under \<open>name\<close>, \<open>None\<close> under
  \<open>results_dir\<close> and the text \<open>0-00:30:00\<close> under \<open>time_limit\<close>.
\<close>

theorem run_config_name:
  assumes "name self = Some nm" and "size_attr self = Some sz" and "measure_attr self = Some ms"
  shows "map_of (get_run_config self) ''name'' = Some (PStr (nm @ ''_'' @ str_int sz @ ms))
         \<and> map_of (get_run_config self) ''results_dir'' = Some PNone
         \<and> map_of (get_run_config self) ''time_limit'' = Some (PStr ''0-00:30:00'')"
  using assms by (simp add: get_run_config_def format_str_def format_int_def)

theorem run_config_name_witness:
  "name obj_three_paths = Some ''gpt3'' \<and> size_attr obj_three_paths = Some 5
   \<and> measure_attr obj_three_paths = Some ''B''
   \<and> map_of (get_run_config obj_three_paths) ''name'' = Some (PStr ''gpt3_5B'')
   \<and> map_of (get_run_config obj_three_paths) ''results_dir'' = Some PNone
   \<and> map_of (get_run_config obj_three_paths) ''time_limit'' = Some (PStr ''0-00:30:00'')"
proof -
  have a: "name obj_three_paths = Some ''gpt3''" "size_attr obj_three_paths = Some 5"
    "measure_attr obj_three_paths = Some ''B''"
    by (simp_all add: obj_three_paths_def)
  from run_config_name [OF a] a show ?thesis
    by (simp add: str_int_5)
qed

text \<open>
  Claim C5. In the trainer configuration of every object, \<open>max_steps\<close> and
  \<open>val_check_interval\<close> both hold the object's \<open>max_steps\<close>, hence the same value.
\<close>

theorem trainer_steps_in_sync:
  "map_of (get_trainer_config self) ''max_steps'' = Some (max_steps self)
   \<and> map_of (get_trainer_config self) ''val_check_interval'' = Some (max_steps self)
   \<and> map_of (get_trainer_config self) ''max_steps''
       = map_of (get_trainer_config self) ''val_check_interval''"
  by (simp add: get_trainer_config_def)

text \<open>
  Claim C6. The optimizer configuration of every object configures \<open>OptimizerConfig\<close>
  with the nine literal arguments of the source, and it is the same for any two objects.
\<close>

theorem optim_config_constant:
  "target (get_optim_config self) = ''OptimizerConfig''
   \<and> map fst (kwargs (get_optim_config self)) =
        [''optimizer'', ''lr'', ''min_lr'', ''use_distributed_optimizer'', ''bf16'',
         ''adam_beta1'', ''adam_beta2'', ''overlap_grad_reduce'', ''overlap_param_gather'']
   \<and> map_of (kwargs (get_optim_config self)) ''optimizer'' = Some (PStr ''adam'')
   \<and> map_of (kwargs (get_optim_config self)) ''lr'' = Some (PFloat (1 / 10 ^ 4))
   \<and> map_of (kwargs (get_optim_config self)) ''min_lr'' = Some (PFloat (1 / 10 ^ 5))
   \<and> map_of (kwargs (get_optim_config self)) ''use_distributed_optimizer'' = Some (PBool True)
   \<and> map_of (kwargs (get_optim_config self)) ''bf16'' = Some (PBool True)
   \<and> map_of (kwargs (get_optim_config self)) ''adam_beta1'' = Some (PFloat (9 / 10))
   \<and> map_of (kwargs (get_optim_config self)) ''adam_beta2'' = Some (PFloat (95 / 100))
   \<and> map_of (kwargs (get_optim_config self)) ''overlap_grad_reduce'' = Some (PBool False)
   \<and> map_of (kwargs (get_optim_config self)) ''overlap_param_gather'' = Some (PBool True)
   \<and> get_optim_config self = get_optim_config self'"
  by (simp add: get_optim_config_def)

text \<open>
  Claim C7. The data configuration of every object has exactly seven keys: \<open>paths\<close>,
  \<open>weights\<close>, \<open>seq_length\<close> and \<open>global_batch_size\<close> hold the object's attributes,
  \<open>num_workers\<close> is \<open>2\<close>, \<open>split\<close> is the text \<open>99990,8,2\<close> and
  \<open>index_mapping_dir\<close> is \<open>None\<close>.
\<close>

theorem data_config_contents:
  "map fst (get_data_config self) =
     [''paths'', ''weights'', ''seq_length'', ''global_batch_size'', ''num_workers'',
      ''split'', ''index_mapping_dir'']
   \<and> map_of (get_data_config self) ''paths'' = Some (data_paths self)
   \<and> map_of (get_data_config self) ''weights'' = Some (weights self)
   \<and> map_of (get_data_config self) ''seq_length'' = Some (seq_length self)
   \<and> map_of (get_data_config self) ''global_batch_size'' = Some (global_batch_size self)
   \<and> map_of (get_data_config self) ''num_workers'' = Some (PInt 2)
   \<and> map_of (get_data_config self) ''split'' = Some (PStr ''99990,8,2'')
   \<and> map_of (get_data_config self) ''index_mapping_dir'' = Some PNone"
  by (simp add: get_data_config_def)

section \<open>Claims on the state of the object\<close>

text \<open>
  Claim C9. A call of any of the six public methods returns the object unchanged, and so
  does any sequence of calls; the \<open>weights\<close> of a constructed object are what
  \<open>_get_data_weights\<close> answers on it, and they stay the same through every sequence of calls.
\<close>

theorem operations_leave_object_unchanged:
  "snd (call m self) = self
   \<and> calls ms self = self
   \<and> (init n v s mu cfg0 = Inr self0 \<longrightarrow>
        get_data_weights self0 = Inr (weights self0)
        \<and> weights (calls ms self0) = weights self0)"
  by (simp add: call_unchanged calls_unchanged init_attributes)

theorem operations_leave_object_unchanged_witness:
  "init (Some ''gpt3'') None (Some 5) (Some ''B'') cfg_three_paths = Inr obj_three_paths
   \<and> get_data_weights obj_three_paths = Inr (weights obj_three_paths)
   \<and> weights (calls [GetDataConfig, ModelConfig, GetRunConfig] obj_three_paths)
       = PList [PFloat (33 / 100), PFloat (33 / 100), PFloat (33 / 100)]"
proof -
  from operations_leave_object_unchanged
         [of GetDataConfig obj_three_paths "[GetDataConfig, ModelConfig, GetRunConfig]"
             "Some ''gpt3''" None "Some 5" "Some ''B''" cfg_three_paths obj_three_paths]
    init_three_paths
  have "get_data_weights obj_three_paths = Inr (weights obj_three_paths)"
    and "weights (calls [GetDataConfig, ModelConfig, GetRunConfig] obj_three_paths)
           = weights obj_three_paths"
    by blast+
  moreover have "weights obj_three_paths
      = PList [PFloat (33 / 100), PFloat (33 / 100), PFloat (33 / 100)]"
    by (simp add: obj_three_paths_def)
  ultimately show ?thesis
    using init_three_paths by simp
qed

end
